theory Spec2Isabelle
  imports Main
begin

section \<open>JavaScript values, promises and the call log\<close>

text \<open>
  The service in \<^verbatim>\<open>core/templates/services/auth.service.ts\<close> is orchestration code:
  every method is an \<^verbatim>\<open>async\<close> function that calls the Firebase SDK, the backend API
  service, the browser's \<^verbatim>\<open>prompt\<close> and the \<^verbatim>\<open>md5\<close> of hash-wasm. The embedding
  takes those collaborators as parameters (records of their behaviours), threads a log
  of the calls made, and returns the state in which the method's promise ends.

  A rejection reason is what a promise is rejected with (what \<^verbatim>\<open>catch (err)\<close> binds):
  \<^verbatim>\<open>null\<close>, an error object with its optional \<^verbatim>\<open>code\<close> and its message, or the
  TypeError the engine raises when a property of \<^verbatim>\<open>null\<close> is read.
\<close>

datatype reason =
    JsNull
  | JsError "string option" string
  | JsTypeError

text \<open>
  The state a promise ends in. \<open>Pending\<close> is the promise that never settles: the file
  itself documents one (\<^verbatim>\<open>Returns a promise that never resolves or rejects\<close>).
\<close>

datatype 'a outcome = Resolved 'a | Rejected reason | Pending

text \<open>
  How a call expression completes: it throws synchronously, or it returns a value
  (for the methods of this file, a promise).
\<close>

datatype 'a completion = Throws reason | Returns 'a

text \<open>The configuration calls made on a fresh \<^verbatim>\<open>GoogleAuthProvider\<close>, in order.\<close>

datatype provider_call =
    AddScope string
  | SetCustomParameters "(string \<times> string) list"

type_synonym GoogleAuthProvider = "provider_call list"

text \<open>
  The calls that leave the service, and the entries into the three methods of the
  selected \<^verbatim>\<open>AuthServiceImpl\<close> (the last three constructors).
\<close>

datatype call =
    Prompt string
  | Md5 "string option"
  | SignInWithEmailAndPassword "string option" string
  | CreateUserWithEmailAndPassword "string option" string
  | SignInWithRedirect GoogleAuthProvider
  | GetRedirectResult
  | SignOut
  | GetIdToken
  | BeginSessionAsync string
  | EndSessionAsync
  | ImplSignInWithRedirectAsync
  | ImplGetRedirectResultAsync
  | ImplSignOutAsync

section \<open>The collaborators\<close>

text \<open>\<^verbatim>\<open>firebase.User\<close> and \<^verbatim>\<open>firebase.auth.UserCredential\<close>, as far as the file reads them.\<close>

record User =
  getIdToken :: "string outcome"

record UserCredential =
  user :: "User option"

text \<open>
  \<^verbatim>\<open>AngularFireAuth\<close>: the five SDK methods the file calls, each given by the state
  its promise ends in. An email is \<^verbatim>\<open>string | null\<close>, as \<^verbatim>\<open>prompt\<close> returns it.
\<close>

record AngularFireAuth =
  signInWithEmailAndPassword :: "string option \<Rightarrow> string \<Rightarrow> UserCredential outcome"
  createUserWithEmailAndPassword :: "string option \<Rightarrow> string \<Rightarrow> UserCredential outcome"
  signInWithRedirect :: "GoogleAuthProvider \<Rightarrow> unit outcome"
  getRedirectResult :: "UserCredential outcome"
  signOut :: "unit outcome"

record AuthBackendApiService =
  beginSessionAsync :: "string \<Rightarrow> unit outcome"
  endSessionAsync :: "unit outcome"

text \<open>
  What the runtime supplies: the operator's answer to \<^verbatim>\<open>prompt\<close> (\<open>None\<close> is the
  \<^verbatim>\<open>null\<close> of a cancelled dialog), hash-wasm's \<^verbatim>\<open>md5\<close>, and, for the two promises
  handed to \<^verbatim>\<open>Promise.all\<close> in \<^verbatim>\<open>signOutAsync\<close>, whether the first of them settles
  before the second.
\<close>

record Runtime =
  prompt :: "string \<Rightarrow> string option"
  md5 :: "string option \<Rightarrow> string outcome"
  first_settles_first :: bool

text \<open>
  \<^verbatim>\<open>AppConstants\<close> (app.constants) is imported, not defined, by the file: its values are
  a parameter.
\<close>

record AppConstants =
  FIREBASE_AUTH_ENABLED :: bool
  EMULATOR_MODE :: bool
  FIREBASE_CONFIG_API_KEY :: string
  FIREBASE_CONFIG_AUTH_DOMAIN :: string
  FIREBASE_CONFIG_PROJECT_ID :: string
  FIREBASE_CONFIG_STORAGE_BUCKET :: string
  FIREBASE_CONFIG_MESSAGING_SENDER_ID :: string
  FIREBASE_CONFIG_APP_ID :: string

record FirebaseOptions =
  apiKey :: string
  authDomain :: string
  projectId :: string
  storageBucket :: string
  messagingSenderId :: string
  appId :: string

section \<open>The static accessors of AuthService\<close>

definition firebaseAuthIsEnabled :: "AppConstants \<Rightarrow> bool" where
  "firebaseAuthIsEnabled c = FIREBASE_AUTH_ENABLED c"

definition firebaseEmulatorIsEnabled :: "AppConstants \<Rightarrow> bool" where
  "firebaseEmulatorIsEnabled c = (firebaseAuthIsEnabled c \<and> EMULATOR_MODE c)"

text \<open>\<open>None\<close> is \<^verbatim>\<open>undefined\<close>.\<close>

definition firebaseConfig :: "AppConstants \<Rightarrow> FirebaseOptions option" where
  "firebaseConfig c =
     (if \<not> firebaseAuthIsEnabled c then None
      else Some \<lparr> apiKey = FIREBASE_CONFIG_API_KEY c,
                  authDomain = FIREBASE_CONFIG_AUTH_DOMAIN c,
                  projectId = FIREBASE_CONFIG_PROJECT_ID c,
                  storageBucket = FIREBASE_CONFIG_STORAGE_BUCKET c,
                  messagingSenderId = FIREBASE_CONFIG_MESSAGING_SENDER_ID c,
                  appId = FIREBASE_CONFIG_APP_ID c \<rparr>)"

definition firebaseEmulatorConfig :: "AppConstants \<Rightarrow> (string \<times> int) option" where
  "firebaseEmulatorConfig c =
     (if firebaseEmulatorIsEnabled c then Some (''localhost'', 9099) else None)"

section \<open>The three implementations of AuthServiceImpl\<close>

datatype AuthServiceImpl =
    NullAuthServiceImpl
  | DevAuthServiceImpl AngularFireAuth
  | ProdAuthServiceImpl AngularFireAuth GoogleAuthProvider

text \<open>The \<^verbatim>\<open>error\<close> field of \<^verbatim>\<open>NullAuthServiceImpl\<close>, set by its initialiser.\<close>

definition NullAuthServiceImpl_error :: reason where
  "NullAuthServiceImpl_error = JsError None ''AngularFireAuth is not available''"

text \<open>
  The constructor of \<^verbatim>\<open>ProdAuthServiceImpl\<close>: a new provider, the email scope, the
  account chooser.
\<close>

definition google_provider :: GoogleAuthProvider where
  "google_provider =
     [AddScope ''email'', SetCustomParameters [(''prompt'', ''select_account'')]]"

definition ProdAuthServiceImpl_new :: "AngularFireAuth \<Rightarrow> AuthServiceImpl" where
  "ProdAuthServiceImpl_new afa = ProdAuthServiceImpl afa google_provider"

text \<open>
  An \<^verbatim>\<open>async\<close> function never throws to its caller: it returns a promise, and a
  \<^verbatim>\<open>throw\<close> in its body rejects that promise. Its body is a computation over the call
  log that ends in an outcome.
\<close>

type_synonym 'a body = "call list \<Rightarrow> 'a outcome \<times> call list"

definition async :: "'a body \<Rightarrow> call list \<Rightarrow> 'a outcome completion \<times> call list" where
  "async b log = (case b log of (p, log') \<Rightarrow> (Returns p, log'))"

text \<open>An external call: the log records it, the collaborator gives its outcome.\<close>

definition perform :: "call \<Rightarrow> 'a outcome \<Rightarrow> 'a body" where
  "perform c p log = (p, log @ [c])"

text \<open>
  \<^verbatim>\<open>await\<close>: the continuation runs on the value of a resolved promise; a rejected
  promise throws its reason out of the body; on a promise that never settles the body
  never resumes.
\<close>

definition await :: "'a body \<Rightarrow> ('a \<Rightarrow> 'b body) \<Rightarrow> 'b body" where
  "await m k log =
     (case m log of
        (Resolved v, log') \<Rightarrow> k v log'
      | (Rejected r, log') \<Rightarrow> (Rejected r, log')
      | (Pending, log') \<Rightarrow> (Pending, log'))"

text \<open>\<^verbatim>\<open>try { ... } catch (err) { ... }\<close> around a body.\<close>

definition try_catch :: "'a body \<Rightarrow> (reason \<Rightarrow> 'a body) \<Rightarrow> 'a body" where
  "try_catch m h log =
     (case m log of
        (Rejected r, log') \<Rightarrow> h r log'
      | (p, log') \<Rightarrow> (p, log'))"

text \<open>
  Reading \<^verbatim>\<open>err.code\<close>: a TypeError on \<^verbatim>\<open>null\<close>, the code of an error object
  (\<open>None\<close> is \<^verbatim>\<open>undefined\<close>) otherwise.
\<close>

fun err_code :: "reason \<Rightarrow> reason + string option" where
  "err_code JsNull = Inl JsTypeError"
| "err_code (JsError c m) = Inr c"
| "err_code JsTypeError = Inr None"

subsection \<open>NullAuthServiceImpl\<close>

definition Null_signInWithRedirectAsync :: "call list \<Rightarrow> unit outcome completion \<times> call list" where
  "Null_signInWithRedirectAsync = async (\<lambda>log. (Rejected NullAuthServiceImpl_error, log))"

definition Null_getRedirectResultAsync ::
    "call list \<Rightarrow> UserCredential outcome completion \<times> call list" where
  "Null_getRedirectResultAsync = async (\<lambda>log. (Rejected NullAuthServiceImpl_error, log))"

definition Null_signOutAsync :: "call list \<Rightarrow> unit outcome completion \<times> call list" where
  "Null_signOutAsync = async (\<lambda>log. (Rejected NullAuthServiceImpl_error, log))"

subsection \<open>DevAuthServiceImpl\<close>

definition Dev_signInWithRedirectAsync :: "call list \<Rightarrow> unit outcome completion \<times> call list" where
  "Dev_signInWithRedirectAsync = async (\<lambda>log. (Resolved (), log))"

text \<open>
  \<^verbatim>\<open>
  async getRedirectResultAsync(): Promise<firebase.auth.UserCredential> {
    const email = prompt('Please enter the email address to sign-in with');
    const password = await md5(email);
    let creds: firebase.auth.UserCredential;
    try {
      creds = await this.angularFireAuth.signInWithEmailAndPassword(
        email, password);
    } catch (err) {
      if (err.code === 'auth/user-not-found') {
        creds = await this.angularFireAuth.createUserWithEmailAndPassword(
          email, password);
      } else {
        throw err;
      }
    }
    return creds;
  }
  \<close>
\<close>

definition prompt_message :: string where
  "prompt_message = ''Please enter the email address to sign-in with''"

definition Dev_getRedirectResultAsync ::
    "AngularFireAuth \<Rightarrow> Runtime \<Rightarrow> call list \<Rightarrow> UserCredential outcome completion \<times> call list" where
  "Dev_getRedirectResultAsync afa rt =
     async (\<lambda>log0.
       let email = prompt rt prompt_message;
           log1 = log0 @ [Prompt prompt_message]
       in await (perform (Md5 email) (md5 rt email)) (\<lambda>password.
            try_catch
              (perform (SignInWithEmailAndPassword email password)
                 (signInWithEmailAndPassword afa email password))
              (\<lambda>err log.
                 case err_code err of
                   Inl e \<Rightarrow> (Rejected e, log)
                 | Inr c \<Rightarrow>
                     if c = Some ''auth/user-not-found''
                     then perform (CreateUserWithEmailAndPassword email password)
                            (createUserWithEmailAndPassword afa email password) log
                     else (Rejected err, log)))
          log1)"

definition Dev_signOutAsync ::
    "AngularFireAuth \<Rightarrow> call list \<Rightarrow> unit outcome completion \<times> call list" where
  "Dev_signOutAsync afa = async (perform SignOut (signOut afa))"

subsection \<open>ProdAuthServiceImpl\<close>

definition Prod_signInWithRedirectAsync ::
    "AngularFireAuth \<Rightarrow> GoogleAuthProvider \<Rightarrow> call list \<Rightarrow> unit outcome completion \<times> call list" where
  "Prod_signInWithRedirectAsync afa provider =
     async (perform (SignInWithRedirect provider) (signInWithRedirect afa provider))"

definition Prod_getRedirectResultAsync ::
    "AngularFireAuth \<Rightarrow> call list \<Rightarrow> UserCredential outcome completion \<times> call list" where
  "Prod_getRedirectResultAsync afa = async (perform GetRedirectResult (getRedirectResult afa))"

definition Prod_signOutAsync ::
    "AngularFireAuth \<Rightarrow> call list \<Rightarrow> unit outcome completion \<times> call list" where
  "Prod_signOutAsync afa = async (perform SignOut (signOut afa))"

subsection \<open>Calls through the abstract class\<close>

text \<open>A call of a method of \<^verbatim>\<open>this.authServiceImpl\<close>: the log notes the entry.\<close>

fun impl_signInWithRedirectAsync ::
    "AuthServiceImpl \<Rightarrow> call list \<Rightarrow> unit outcome completion \<times> call list" where
  "impl_signInWithRedirectAsync NullAuthServiceImpl log =
     Null_signInWithRedirectAsync (log @ [ImplSignInWithRedirectAsync])"
| "impl_signInWithRedirectAsync (DevAuthServiceImpl afa) log =
     Dev_signInWithRedirectAsync (log @ [ImplSignInWithRedirectAsync])"
| "impl_signInWithRedirectAsync (ProdAuthServiceImpl afa provider) log =
     Prod_signInWithRedirectAsync afa provider (log @ [ImplSignInWithRedirectAsync])"

fun impl_getRedirectResultAsync ::
    "AuthServiceImpl \<Rightarrow> Runtime \<Rightarrow> call list \<Rightarrow> UserCredential outcome completion \<times> call list" where
  "impl_getRedirectResultAsync NullAuthServiceImpl rt log =
     Null_getRedirectResultAsync (log @ [ImplGetRedirectResultAsync])"
| "impl_getRedirectResultAsync (DevAuthServiceImpl afa) rt log =
     Dev_getRedirectResultAsync afa rt (log @ [ImplGetRedirectResultAsync])"
| "impl_getRedirectResultAsync (ProdAuthServiceImpl afa provider) rt log =
     Prod_getRedirectResultAsync afa (log @ [ImplGetRedirectResultAsync])"

fun impl_signOutAsync ::
    "AuthServiceImpl \<Rightarrow> call list \<Rightarrow> unit outcome completion \<times> call list" where
  "impl_signOutAsync NullAuthServiceImpl log = Null_signOutAsync (log @ [ImplSignOutAsync])"
| "impl_signOutAsync (DevAuthServiceImpl afa) log = Dev_signOutAsync afa (log @ [ImplSignOutAsync])"
| "impl_signOutAsync (ProdAuthServiceImpl afa provider) log =
     Prod_signOutAsync afa (log @ [ImplSignOutAsync])"

section \<open>AuthService\<close>

record AuthService =
  authServiceImpl :: AuthServiceImpl
  angularFireAuth :: "AngularFireAuth option"
  authBackendApiService :: AuthBackendApiService

text \<open>
  The constructor. The optional \<^verbatim>\<open>angularFireAuth\<close> is \<^verbatim>\<open>null\<close> (\<open>None\<close>) when the
  injector has no AngularFireAuth to give.
  \<^verbatim>\<open>
  if (!this.angularFireAuth) {
    this.authServiceImpl = new NullAuthServiceImpl();
  } else if (AuthService.firebaseEmulatorIsEnabled) {
    this.authServiceImpl = new DevAuthServiceImpl(this.angularFireAuth);
  } else {
    this.authServiceImpl = new ProdAuthServiceImpl(this.angularFireAuth);
  }
  \<close>
\<close>

definition AuthService_new ::
    "AppConstants \<Rightarrow> AngularFireAuth option \<Rightarrow> AuthBackendApiService \<Rightarrow> AuthService" where
  "AuthService_new c afa backend =
     \<lparr> authServiceImpl =
         (case afa of
            None \<Rightarrow> NullAuthServiceImpl
          | Some a \<Rightarrow>
              if firebaseEmulatorIsEnabled c then DevAuthServiceImpl a
              else ProdAuthServiceImpl_new a),
       angularFireAuth = afa,
       authBackendApiService = backend \<rparr>"

text \<open>
  Awaiting a call expression inside an \<^verbatim>\<open>async\<close> body: a callee that throws
  synchronously rejects the body like a rejected promise does.
\<close>

definition called :: "(call list \<Rightarrow> 'a outcome completion \<times> call list) \<Rightarrow> 'a body" where
  "called f log =
     (case f log of
        (Throws r, log') \<Rightarrow> (Rejected r, log')
      | (Returns p, log') \<Rightarrow> (p, log'))"

text \<open>
  \<^verbatim>\<open>
  async handleRedirectResultAsync(): Promise<void> {
    const creds = await this.authServiceImpl.getRedirectResultAsync();
    if (creds.user) {
      const idToken = await creds.user.getIdToken();
      return this.authBackendApiService.beginSessionAsync(idToken);
    } else {
      return Promise.reject(null);
    }
  }
  \<close>
\<close>

definition handleRedirectResultAsync ::
    "AuthService \<Rightarrow> Runtime \<Rightarrow> call list \<Rightarrow> unit outcome completion \<times> call list" where
  "handleRedirectResultAsync svc rt =
     async (await (called (impl_getRedirectResultAsync (authServiceImpl svc) rt)) (\<lambda>creds.
       case user creds of
         Some u \<Rightarrow>
           await (perform GetIdToken (getIdToken u)) (\<lambda>idToken.
             perform (BeginSessionAsync idToken)
               (beginSessionAsync (authBackendApiService svc) idToken))
       | None \<Rightarrow> (\<lambda>log. (Rejected JsNull, log))))"

definition signInWithRedirectAsync ::
    "AuthService \<Rightarrow> call list \<Rightarrow> unit outcome completion \<times> call list" where
  "signInWithRedirectAsync svc =
     async (called (impl_signInWithRedirectAsync (authServiceImpl svc)))"

text \<open>
  \<^verbatim>\<open>Promise.all\<close> of two promises: it resolves with both values when both resolve; it
  rejects as soon as one of them rejects, with that reason, whatever the other does;
  otherwise it never settles. When both reject, the one that settles first gives the
  reason.
\<close>

fun Promise_all :: "bool \<Rightarrow> 'a outcome \<Rightarrow> 'b outcome \<Rightarrow> ('a \<times> 'b) outcome" where
  "Promise_all first (Rejected r) (Rejected s) = Rejected (if first then r else s)"
| "Promise_all first (Rejected r) q = Rejected r"
| "Promise_all first p (Rejected s) = Rejected s"
| "Promise_all first (Resolved a) (Resolved b) = Resolved (a, b)"
| "Promise_all first p q = Pending"

text \<open>
  \<^verbatim>\<open>
  async signOutAsync(): Promise<void> {
    await Promise.all([
      this.authServiceImpl.signOutAsync(),
      this.authBackendApiService.endSessionAsync(),
    ]);
  }
  \<close>
  The array literal evaluates its two call expressions in order, before
  \<^verbatim>\<open>Promise.all\<close> is called: were the first to throw, the second would not be made.
\<close>

definition signOutAsync ::
    "AuthService \<Rightarrow> Runtime \<Rightarrow> call list \<Rightarrow> unit outcome completion \<times> call list" where
  "signOutAsync svc rt =
     async (\<lambda>log0.
       case impl_signOutAsync (authServiceImpl svc) log0 of
         (Throws r, log1) \<Rightarrow> (Rejected r, log1)
       | (Returns p, log1) \<Rightarrow>
           let q = endSessionAsync (authBackendApiService svc);
               log2 = log1 @ [EndSessionAsync]
           in await (\<lambda>log. (Promise_all (first_settles_first rt) p q, log))
                (\<lambda>_ log. (Resolved (), log)) log2)"

section \<open>Reading the call log\<close>

datatype variant = Disabled | Emulated | Live

fun variant_of :: "AuthServiceImpl \<Rightarrow> variant" where
  "variant_of NullAuthServiceImpl = Disabled"
| "variant_of (DevAuthServiceImpl afa) = Emulated"
| "variant_of (ProdAuthServiceImpl afa provider) = Live"

text \<open>The tokens \<^verbatim>\<open>beginSessionAsync\<close> was called with, in order.\<close>

fun begin_session_calls :: "call list \<Rightarrow> string list" where
  "begin_session_calls [] = []"
| "begin_session_calls (BeginSessionAsync t # cs) = t # begin_session_calls cs"
| "begin_session_calls (c # cs) = begin_session_calls cs"

text \<open>The email and password of every account-creation call, in order.\<close>

fun create_user_calls :: "call list \<Rightarrow> (string option \<times> string) list" where
  "create_user_calls [] = []"
| "create_user_calls (CreateUserWithEmailAndPassword e p # cs) = (e, p) # create_user_calls cs"
| "create_user_calls (c # cs) = create_user_calls cs"

text \<open>The passwords handed to the provider, by sign-in or by account creation.\<close>

fun passwords :: "call list \<Rightarrow> string list" where
  "passwords [] = []"
| "passwords (SignInWithEmailAndPassword e p # cs) = p # passwords cs"
| "passwords (CreateUserWithEmailAndPassword e p # cs) = p # passwords cs"
| "passwords (c # cs) = passwords cs"

text \<open>The calls a run added to the log it started from.\<close>

definition new_calls :: "call list \<Rightarrow> call list \<Rightarrow> call list" where
  "new_calls before after = drop (length before) after"

section \<open>Example collaborators\<close>

text \<open>
  Concrete collaborators on which the theorems below are instantiated: constants with
  the two flags as given, a user whose identity token is \<open>T\<close>, an emulator that does
  not know the account yet and creates it, a backend that accepts everything, and an
  operator who enters \<open>a@b.com\<close> (whose md5 is the hash below).
\<close>

definition example_constants :: "bool \<Rightarrow> bool \<Rightarrow> AppConstants" where
  "example_constants auth emulator =
     \<lparr> FIREBASE_AUTH_ENABLED = auth,
       EMULATOR_MODE = emulator,
       FIREBASE_CONFIG_API_KEY = ''key'',
       FIREBASE_CONFIG_AUTH_DOMAIN = ''oppia.example'',
       FIREBASE_CONFIG_PROJECT_ID = ''project'',
       FIREBASE_CONFIG_STORAGE_BUCKET = ''bucket'',
       FIREBASE_CONFIG_MESSAGING_SENDER_ID = ''sender'',
       FIREBASE_CONFIG_APP_ID = ''app'' \<rparr>"

definition example_user :: User where
  "example_user = \<lparr> getIdToken = Resolved ''T'' \<rparr>"

definition example_credential :: UserCredential where
  "example_credential = \<lparr> user = Some example_user \<rparr>"

definition user_not_found :: reason where
  "user_not_found = JsError (Some ''auth/user-not-found'') ''no such user''"

definition wrong_password :: reason where
  "wrong_password = JsError (Some ''auth/wrong-password'') ''bad password''"

definition network_error :: reason where
  "network_error = JsError None ''network''"

definition example_afa :: AngularFireAuth where
  "example_afa =
     \<lparr> signInWithEmailAndPassword = (\<lambda>email password. Rejected user_not_found),
       createUserWithEmailAndPassword = (\<lambda>email password. Resolved example_credential),
       signInWithRedirect = (\<lambda>provider. Pending),
       getRedirectResult = Resolved example_credential,
       signOut = Resolved () \<rparr>"

text \<open>A browser in which the SDK refuses the redirect flow.\<close>

definition unsupported_environment :: reason where
  "unsupported_environment =
     JsError (Some ''auth/operation-not-supported-in-this-environment'') ''unsupported''"

definition unsupported_afa :: AngularFireAuth where
  "unsupported_afa =
     \<lparr> signInWithEmailAndPassword = (\<lambda>email password. Rejected unsupported_environment),
       createUserWithEmailAndPassword = (\<lambda>email password. Rejected unsupported_environment),
       signInWithRedirect = (\<lambda>provider. Rejected unsupported_environment),
       getRedirectResult = Rejected unsupported_environment,
       signOut = Resolved () \<rparr>"

definition example_backend :: AuthBackendApiService where
  "example_backend =
     \<lparr> beginSessionAsync = (\<lambda>idToken. Resolved ()),
       endSessionAsync = Resolved () \<rparr>"

definition example_runtime :: Runtime where
  "example_runtime =
     \<lparr> prompt = (\<lambda>message. Some ''a@b.com''),
       md5 = (\<lambda>data. if data = Some ''a@b.com''
                     then Resolved ''357a20e8c56e69d6f9734d23ef9517e8''
                     else Rejected (JsError None ''Invalid data type!'')),
       first_settles_first = True \<rparr>"

section \<open>Facts shared by the proofs\<close>

lemmas async_defs = async_def perform_def await_def try_catch_def called_def

lemmas accessor_defs =
  firebaseAuthIsEnabled_def firebaseEmulatorIsEnabled_def firebaseConfig_def
  firebaseEmulatorConfig_def

lemmas example_defs =
  example_constants_def example_user_def example_credential_def example_afa_def
  example_backend_def example_runtime_def user_not_found_def wrong_password_def
  network_error_def unsupported_afa_def unsupported_environment_def

lemma begin_session_calls_append:
  "begin_session_calls (xs @ ys) = begin_session_calls xs @ begin_session_calls ys"
  by (induction xs rule: begin_session_calls.induct) simp_all

lemma create_user_calls_append:
  "create_user_calls (xs @ ys) = create_user_calls xs @ create_user_calls ys"
  by (induction xs rule: create_user_calls.induct) simp_all

lemma passwords_append: "passwords (xs @ ys) = passwords xs @ passwords ys"
  by (induction xs rule: passwords.induct) simp_all

lemma new_calls_append: "new_calls log (log @ ext) = ext"
  by (simp add: new_calls_def)

subsection \<open>The emulated variant's redirect-result method, branch by branch\<close>

lemma Dev_getRedirectResultAsync_md5_unsettled:
  assumes "\<forall>password. md5 rt (prompt rt prompt_message) \<noteq> Resolved password"
  shows "Dev_getRedirectResultAsync afa rt log =
           (Returns (case md5 rt (prompt rt prompt_message) of
                       Rejected r \<Rightarrow> Rejected r | _ \<Rightarrow> Pending),
            log @ [Prompt prompt_message, Md5 (prompt rt prompt_message)])"
  using assms
  by (cases "md5 rt (prompt rt prompt_message)")
     (simp_all add: Dev_getRedirectResultAsync_def async_defs Let_def)

lemma Dev_getRedirectResultAsync_signed_in:
  assumes "md5 rt (prompt rt prompt_message) = Resolved password"
    and "\<forall>r. signInWithEmailAndPassword afa (prompt rt prompt_message) password \<noteq> Rejected r"
  shows "Dev_getRedirectResultAsync afa rt log =
           (Returns (signInWithEmailAndPassword afa (prompt rt prompt_message) password),
            log @ [Prompt prompt_message, Md5 (prompt rt prompt_message),
                   SignInWithEmailAndPassword (prompt rt prompt_message) password])"
  using assms
  by (cases "signInWithEmailAndPassword afa (prompt rt prompt_message) password")
     (simp_all add: Dev_getRedirectResultAsync_def async_defs Let_def)

lemma Dev_getRedirectResultAsync_rejected:
  assumes "md5 rt (prompt rt prompt_message) = Resolved password"
    and "signInWithEmailAndPassword afa (prompt rt prompt_message) password = Rejected err"
  shows "Dev_getRedirectResultAsync afa rt log =
           (case err_code err of
              Inl e \<Rightarrow>
                (Returns (Rejected e),
                 log @ [Prompt prompt_message, Md5 (prompt rt prompt_message),
                        SignInWithEmailAndPassword (prompt rt prompt_message) password])
            | Inr c \<Rightarrow>
                if c = Some ''auth/user-not-found''
                then (Returns (createUserWithEmailAndPassword afa (prompt rt prompt_message) password),
                      log @ [Prompt prompt_message, Md5 (prompt rt prompt_message),
                             SignInWithEmailAndPassword (prompt rt prompt_message) password,
                             CreateUserWithEmailAndPassword (prompt rt prompt_message) password])
                else (Returns (Rejected err),
                      log @ [Prompt prompt_message, Md5 (prompt rt prompt_message),
                             SignInWithEmailAndPassword (prompt rt prompt_message) password]))"
  using assms
  by (simp add: Dev_getRedirectResultAsync_def async_defs Let_def split: sum.splits)

lemma Dev_getRedirectResultAsync_passwords:
  "set (passwords (new_calls log (snd (Dev_getRedirectResultAsync afa rt log)))) =
     (case md5 rt (prompt rt prompt_message) of Resolved h \<Rightarrow> {h} | _ \<Rightarrow> {})"
proof (cases "md5 rt (prompt rt prompt_message)")
  case (Resolved password)
  show ?thesis
  proof (cases "signInWithEmailAndPassword afa (prompt rt prompt_message) password")
    case (Rejected err)
    with Resolved show ?thesis
      by (simp add: Dev_getRedirectResultAsync_rejected new_calls_append split: sum.splits)
  qed (use Resolved in
        \<open>simp_all add: Dev_getRedirectResultAsync_signed_in new_calls_append\<close>)
qed (simp_all add: Dev_getRedirectResultAsync_md5_unsettled new_calls_append)

lemma Dev_getRedirectResultAsync_signs_in:
  assumes "md5 rt (prompt rt prompt_message) = Resolved h"
  shows "SignInWithEmailAndPassword (prompt rt prompt_message) h
           \<in> set (new_calls log (snd (Dev_getRedirectResultAsync afa rt log)))"
proof (cases "signInWithEmailAndPassword afa (prompt rt prompt_message) h")
  case (Rejected err)
  with assms show ?thesis
    by (simp add: Dev_getRedirectResultAsync_rejected new_calls_append split: sum.splits)
qed (use assms in \<open>simp_all add: Dev_getRedirectResultAsync_signed_in new_calls_append\<close>)

subsection \<open>The strategy's methods return promises and only add to the log\<close>

lemma impl_getRedirectResultAsync_log:
  "\<exists>p ext. impl_getRedirectResultAsync impl rt log = (Returns p, log @ ext)
           \<and> begin_session_calls ext = []"
proof (cases impl)
  case NullAuthServiceImpl
  then show ?thesis
    by (simp add: Null_getRedirectResultAsync_def async_def)
next
  case (DevAuthServiceImpl afa)
  show ?thesis
  proof (cases "md5 rt (prompt rt prompt_message)")
    case (Resolved password)
    show ?thesis
    proof (cases "signInWithEmailAndPassword afa (prompt rt prompt_message) password")
      case (Rejected err)
      with Resolved DevAuthServiceImpl show ?thesis
        by (simp add: Dev_getRedirectResultAsync_rejected split: sum.splits)
    qed (use Resolved DevAuthServiceImpl in
          \<open>simp_all add: Dev_getRedirectResultAsync_signed_in\<close>)
  qed (use DevAuthServiceImpl in \<open>simp_all add: Dev_getRedirectResultAsync_md5_unsettled\<close>)
next
  case (ProdAuthServiceImpl afa provider)
  then show ?thesis
    by (simp add: Prod_getRedirectResultAsync_def async_def perform_def)
qed

lemma impl_signOutAsync_log:
  "\<exists>p ext. impl_signOutAsync impl log = (Returns p, log @ ImplSignOutAsync # ext)
           \<and> count_list ext ImplSignOutAsync = 0 \<and> count_list ext EndSessionAsync = 0"
  by (cases impl)
     (simp_all add: Null_signOutAsync_def Dev_signOutAsync_def Prod_signOutAsync_def
        async_def perform_def)

lemma signOutAsync_run:
  assumes "impl_signOutAsync (authServiceImpl svc) log = (Returns p, log1)"
  shows "signOutAsync svc rt log =
           (Returns (case Promise_all (first_settles_first rt) p
                            (endSessionAsync (authBackendApiService svc)) of
                       Resolved v \<Rightarrow> Resolved ()
                     | Rejected e \<Rightarrow> Rejected e
                     | Pending \<Rightarrow> Pending),
            log1 @ [EndSessionAsync])"
  using assms
  by (simp add: signOutAsync_def async_def await_def Let_def split: outcome.splits)

section \<open>Strategy selection\<close>

text \<open>
  C1, as the claim states it, fails on the constructor. The claim makes the variant a
  function of the two flags alone, with \<open>authEnabled = false\<close> always giving the
  Disabled variant. The constructor does not read the auth-enabled flag to choose the
  Null implementation: it tests the injected \<^verbatim>\<open>angularFireAuth\<close>. With the flag false,
  emulator mode on and an AngularFireAuth injected, \<^verbatim>\<open>firebaseEmulatorIsEnabled\<close> is
  false and the Live variant is built.
\<close>

theorem strategy_selection_by_flags_counterexample:
  "FIREBASE_AUTH_ENABLED (example_constants False True) = False
   \<and> variant_of (authServiceImpl
         (AuthService_new (example_constants False True) (Some example_afa) example_backend)) = Live"
  by (simp add: AuthService_new_def ProdAuthServiceImpl_new_def accessor_defs
        example_constants_def)

text \<open>
  C1, amended: the variant chosen at construction is a function of whether an
  AngularFireAuth was injected and of the two flags. Without one the Disabled (Null)
  variant is chosen, whatever the flags; with one, the Emulated (Dev) variant is chosen
  when both the auth-enabled and the emulator flag are true, and the Live (Prod)
  variant otherwise. Where an AngularFireAuth is injected exactly when the auth-enabled
  flag is true, the choice is the claim's function of the two flags.
\<close>

theorem strategy_selection:
  "variant_of (authServiceImpl (AuthService_new c afa backend)) =
     (case afa of
        None \<Rightarrow> Disabled
      | Some a \<Rightarrow> if FIREBASE_AUTH_ENABLED c \<and> EMULATOR_MODE c then Emulated else Live)
   \<and> ((afa \<noteq> None) = FIREBASE_AUTH_ENABLED c \<longrightarrow>
        variant_of (authServiceImpl (AuthService_new c afa backend)) =
          (if \<not> FIREBASE_AUTH_ENABLED c then Disabled
           else if EMULATOR_MODE c then Emulated else Live))"
  by (cases afa)
     (simp_all add: AuthService_new_def ProdAuthServiceImpl_new_def accessor_defs)

theorem strategy_selection_witness:
  "variant_of (authServiceImpl
      (AuthService_new (example_constants True True) (Some example_afa) example_backend)) = Emulated
   \<and> variant_of (authServiceImpl
      (AuthService_new (example_constants True False) (Some example_afa) example_backend)) = Live
   \<and> variant_of (authServiceImpl
      (AuthService_new (example_constants True True) None example_backend)) = Disabled
   \<and> variant_of (authServiceImpl
      (AuthService_new (example_constants False True) None example_backend)) = Disabled"
  using strategy_selection [of "example_constants True True" "Some example_afa" example_backend]
    strategy_selection [of "example_constants True False" "Some example_afa" example_backend]
    strategy_selection [of "example_constants True True" None example_backend]
    strategy_selection [of "example_constants False True" None example_backend]
  by (simp add: example_constants_def)

section \<open>The static accessors\<close>

text \<open>
  C9: \<^verbatim>\<open>firebaseEmulatorConfig\<close> is the pair of \<open>localhost\<close> and 9099 when emulator mode
  is enabled (the accessor \<^verbatim>\<open>firebaseEmulatorIsEnabled\<close>: the auth-enabled and the
  emulator flag both true) and \<^verbatim>\<open>undefined\<close> otherwise. The accessors are functions of
  the constants: they take and return no call log, and the result is the same for any
  two configurations that agree on the two flags.
\<close>

theorem emulator_config:
  "firebaseEmulatorConfig c =
     (if firebaseEmulatorIsEnabled c then Some (''localhost'', 9099) else None)
   \<and> firebaseEmulatorIsEnabled c = (FIREBASE_AUTH_ENABLED c \<and> EMULATOR_MODE c)
   \<and> (FIREBASE_AUTH_ENABLED c' = FIREBASE_AUTH_ENABLED c \<and> EMULATOR_MODE c' = EMULATOR_MODE c
        \<longrightarrow> firebaseEmulatorConfig c' = firebaseEmulatorConfig c)"
  by (simp add: accessor_defs)

theorem emulator_config_witness:
  "firebaseEmulatorConfig (example_constants True True) = Some (''localhost'', 9099)
   \<and> firebaseEmulatorConfig (example_constants True False) = None
   \<and> firebaseEmulatorConfig (example_constants False True) = None
   \<and> firebaseEmulatorConfig
        ((example_constants True True)\<lparr> FIREBASE_CONFIG_API_KEY := ''other'' \<rparr>)
       = firebaseEmulatorConfig (example_constants True True)"
  using emulator_config [of "example_constants True True"]
    emulator_config [of "example_constants True False"]
    emulator_config [of "example_constants False True"]
    emulator_config [of "example_constants True True"
      "(example_constants True True)\<lparr> FIREBASE_CONFIG_API_KEY := ''other'' \<rparr>"]
  by (simp add: example_constants_def)

text \<open>
  C10: \<^verbatim>\<open>firebaseConfig\<close> is \<^verbatim>\<open>undefined\<close> when the auth-enabled flag is false, and
  otherwise the options object whose six fields are the six identity-provider
  constants.
\<close>

theorem firebase_config:
  "firebaseConfig c =
     (if \<not> FIREBASE_AUTH_ENABLED c then None
      else Some \<lparr> apiKey = FIREBASE_CONFIG_API_KEY c,
                  authDomain = FIREBASE_CONFIG_AUTH_DOMAIN c,
                  projectId = FIREBASE_CONFIG_PROJECT_ID c,
                  storageBucket = FIREBASE_CONFIG_STORAGE_BUCKET c,
                  messagingSenderId = FIREBASE_CONFIG_MESSAGING_SENDER_ID c,
                  appId = FIREBASE_CONFIG_APP_ID c \<rparr>)"
  by (simp add: accessor_defs)

theorem firebase_config_witness:
  "firebaseConfig (example_constants False True) = None
   \<and> firebaseConfig (example_constants True False) =
       Some \<lparr> apiKey = ''key'', authDomain = ''oppia.example'', projectId = ''project'',
              storageBucket = ''bucket'', messagingSenderId = ''sender'', appId = ''app'' \<rparr>"
  using firebase_config [of "example_constants False True"]
    firebase_config [of "example_constants True False"]
  by (simp add: example_constants_def)

section \<open>The Disabled variant\<close>

text \<open>
  C6: each of the three methods of the Null implementation returns a promise (it does
  not throw to its caller), the promise is rejected with the implementation's error,
  \<^verbatim>\<open>AngularFireAuth is not available\<close>, and no call leaves the service.
\<close>

theorem disabled_variant_rejects:
  "Null_signInWithRedirectAsync log = (Returns (Rejected NullAuthServiceImpl_error), log)
   \<and> Null_getRedirectResultAsync log = (Returns (Rejected NullAuthServiceImpl_error), log)
   \<and> Null_signOutAsync log = (Returns (Rejected NullAuthServiceImpl_error), log)
   \<and> NullAuthServiceImpl_error = JsError None ''AngularFireAuth is not available''"
  by (simp add: Null_signInWithRedirectAsync_def Null_getRedirectResultAsync_def
        Null_signOutAsync_def async_def NullAuthServiceImpl_error_def)

theorem disabled_variant_rejects_witness:
  "Null_signInWithRedirectAsync [GetIdToken] =
     (Returns (Rejected (JsError None ''AngularFireAuth is not available'')), [GetIdToken])
   \<and> Null_getRedirectResultAsync [] =
     (Returns (Rejected (JsError None ''AngularFireAuth is not available'')), [])
   \<and> Null_signOutAsync [] =
     (Returns (Rejected (JsError None ''AngularFireAuth is not available'')), [])"
  using disabled_variant_rejects [of "[GetIdToken]"] disabled_variant_rejects [of "[]"]
  by simp

section \<open>The Emulated variant\<close>

text \<open>
  C5: in the Dev implementation's \<^verbatim>\<open>getRedirectResultAsync\<close>, when the sign-in with the
  entered email and the derived password is rejected with a provider error (an error
  object, not \<^verbatim>\<open>null\<close>): if the error's code is \<open>auth/user-not-found\<close>, exactly one
  account-creation call follows, with the same email and password, and the method's
  promise ends as that call's does (resolved with its credential when it resolves);
  with any other error the promise is rejected with that same error and no
  account-creation call is made.
\<close>

theorem emulated_sign_in_recovery:
  assumes "md5 rt (prompt rt prompt_message) = Resolved password"
    and "signInWithEmailAndPassword afa (prompt rt prompt_message) password = Rejected err"
    and "err \<noteq> JsNull"
  shows "Dev_getRedirectResultAsync afa rt log =
           (if err_code err = Inr (Some ''auth/user-not-found'')
            then (Returns (createUserWithEmailAndPassword afa (prompt rt prompt_message) password),
                  log @ [Prompt prompt_message, Md5 (prompt rt prompt_message),
                         SignInWithEmailAndPassword (prompt rt prompt_message) password,
                         CreateUserWithEmailAndPassword (prompt rt prompt_message) password])
            else (Returns (Rejected err),
                  log @ [Prompt prompt_message, Md5 (prompt rt prompt_message),
                         SignInWithEmailAndPassword (prompt rt prompt_message) password]))
         \<and> create_user_calls (new_calls log (snd (Dev_getRedirectResultAsync afa rt log))) =
             (if err_code err = Inr (Some ''auth/user-not-found'')
              then [(prompt rt prompt_message, password)] else [])"
  using Dev_getRedirectResultAsync_rejected [OF assms(1,2), of log] assms(3)
  by (cases err) (simp_all add: new_calls_append)

theorem emulated_sign_in_recovery_witness:
  "Dev_getRedirectResultAsync example_afa example_runtime [] =
     (Returns (Resolved example_credential),
      [Prompt prompt_message, Md5 (Some ''a@b.com''),
       SignInWithEmailAndPassword (Some ''a@b.com'') ''357a20e8c56e69d6f9734d23ef9517e8'',
       CreateUserWithEmailAndPassword (Some ''a@b.com'') ''357a20e8c56e69d6f9734d23ef9517e8''])
   \<and> Dev_getRedirectResultAsync unsupported_afa example_runtime [] =
     (Returns (Rejected unsupported_environment),
      [Prompt prompt_message, Md5 (Some ''a@b.com''),
       SignInWithEmailAndPassword (Some ''a@b.com'') ''357a20e8c56e69d6f9734d23ef9517e8''])"
  using emulated_sign_in_recovery
    [of example_runtime "''357a20e8c56e69d6f9734d23ef9517e8''" example_afa user_not_found "[]"]
    emulated_sign_in_recovery
    [of example_runtime "''357a20e8c56e69d6f9734d23ef9517e8''" unsupported_afa
        unsupported_environment "[]"]
  by (simp add: example_defs)

text \<open>
  C7: the password the Dev implementation hands to the provider is the md5 hash of the
  entered email and of nothing else. Two runs in which the operator enters the same
  email, under the same \<^verbatim>\<open>md5\<close>, hand the provider the same password, whatever the
  provider answers and whatever was called before; when the hash is computed, both
  runs sign in with that email and that hash.
\<close>

theorem derived_password_deterministic:
  assumes "prompt rt1 prompt_message = Some email"
    and "prompt rt2 prompt_message = Some email"
    and "md5 rt1 = md5 rt2"
  shows "set (passwords (new_calls log1 (snd (Dev_getRedirectResultAsync afa1 rt1 log1)))) =
           set (passwords (new_calls log2 (snd (Dev_getRedirectResultAsync afa2 rt2 log2))))
         \<and> set (passwords (new_calls log1 (snd (Dev_getRedirectResultAsync afa1 rt1 log1)))) =
             (case md5 rt1 (Some email) of Resolved h \<Rightarrow> {h} | _ \<Rightarrow> {})
         \<and> (\<forall>h. md5 rt1 (Some email) = Resolved h \<longrightarrow>
               SignInWithEmailAndPassword (Some email) h
                 \<in> set (new_calls log1 (snd (Dev_getRedirectResultAsync afa1 rt1 log1)))
               \<and> SignInWithEmailAndPassword (Some email) h
                 \<in> set (new_calls log2 (snd (Dev_getRedirectResultAsync afa2 rt2 log2))))"
  using assms
    Dev_getRedirectResultAsync_signs_in [of rt1 _ log1 afa1]
    Dev_getRedirectResultAsync_signs_in [of rt2 _ log2 afa2]
  by (simp add: Dev_getRedirectResultAsync_passwords)

theorem derived_password_deterministic_witness:
  "passwords (snd (Dev_getRedirectResultAsync example_afa example_runtime [])) =
     [''357a20e8c56e69d6f9734d23ef9517e8'', ''357a20e8c56e69d6f9734d23ef9517e8'']
   \<and> passwords (snd (Dev_getRedirectResultAsync unsupported_afa
        (example_runtime\<lparr> first_settles_first := False \<rparr>) [SignOut])) =
     [''357a20e8c56e69d6f9734d23ef9517e8'']
   \<and> set (passwords (new_calls [] (snd (Dev_getRedirectResultAsync example_afa example_runtime [])))) =
      set (passwords (new_calls [SignOut] (snd (Dev_getRedirectResultAsync unsupported_afa
        (example_runtime\<lparr> first_settles_first := False \<rparr>) [SignOut]))))"
proof -
  have "prompt example_runtime prompt_message = Some ''a@b.com''"
    and "prompt (example_runtime\<lparr> first_settles_first := False \<rparr>) prompt_message = Some ''a@b.com''"
    and "md5 example_runtime = md5 (example_runtime\<lparr> first_settles_first := False \<rparr>)"
    by (simp_all add: example_runtime_def)
  from derived_password_deterministic
    [OF this, of "[]" example_afa "[SignOut]" unsupported_afa]
  show ?thesis
    by (simp add: Dev_getRedirectResultAsync_def async_defs Let_def example_defs)
qed

section \<open>The Live variant\<close>

text \<open>
  C8: the Live variant's \<^verbatim>\<open>signInWithRedirectAsync\<close> is documented in the source as
  returning a promise that never resolves or rejects. The method does not keep that:
  \<^verbatim>\<open>
  /** Returns a promise that never resolves or rejects. */
  async signInWithRedirectAsync(): Promise<void> {
    return this.angularFireAuth.signInWithRedirect(this.provider);
  }
  \<close>
  It returns the SDK's own promise. In a browser where the SDK refuses the redirect
  flow and rejects, the promise of the method, and of the service's
  \<^verbatim>\<open>signInWithRedirectAsync\<close> that calls it, is rejected with the SDK's error.
\<close>

theorem live_redirect_sign_in_rejects_with_sdk:
  "Prod_signInWithRedirectAsync unsupported_afa google_provider [] =
     (Returns (Rejected unsupported_environment), [SignInWithRedirect google_provider])
   \<and> signInWithRedirectAsync
       (AuthService_new (example_constants True False) (Some unsupported_afa) example_backend) [] =
     (Returns (Rejected unsupported_environment),
      [ImplSignInWithRedirectAsync, SignInWithRedirect google_provider])"
  by (simp add: signInWithRedirectAsync_def AuthService_new_def ProdAuthServiceImpl_new_def
        accessor_defs Prod_signInWithRedirectAsync_def async_defs unsupported_afa_def
        example_constants_def)

section \<open>AuthService: the redirect result\<close>

text \<open>
  C2: when the strategy's redirect result is a credential with a user whose
  \<^verbatim>\<open>getIdToken\<close> gives the token \<open>T\<close>, \<^verbatim>\<open>handleRedirectResultAsync\<close> calls
  \<^verbatim>\<open>beginSessionAsync\<close> once, with \<open>T\<close>, and its promise ends exactly as that call's
  does.
\<close>

theorem handle_redirect_result_begins_session:
  assumes "impl_getRedirectResultAsync (authServiceImpl svc) rt log = (Returns (Resolved creds), log1)"
    and "user creds = Some u"
    and "getIdToken u = Resolved T"
  shows "handleRedirectResultAsync svc rt log =
           (Returns (beginSessionAsync (authBackendApiService svc) T),
            log1 @ [GetIdToken, BeginSessionAsync T])
         \<and> begin_session_calls (new_calls log (snd (handleRedirectResultAsync svc rt log))) = [T]"
proof -
  from impl_getRedirectResultAsync_log [of "authServiceImpl svc" rt log] assms(1)
  obtain ext where ext: "log1 = log @ ext" "begin_session_calls ext = []"
    by auto
  have run: "handleRedirectResultAsync svc rt log =
           (Returns (beginSessionAsync (authBackendApiService svc) T),
            log1 @ [GetIdToken, BeginSessionAsync T])"
    using assms by (simp add: handleRedirectResultAsync_def async_defs)
  have "new_calls log (log1 @ [GetIdToken, BeginSessionAsync T])
          = ext @ [GetIdToken, BeginSessionAsync T]"
    using ext(1) new_calls_append [of log "ext @ [GetIdToken, BeginSessionAsync T]"] by simp
  with run ext(2) show ?thesis
    by (simp add: begin_session_calls_append)
qed

theorem handle_redirect_result_begins_session_witness:
  "handleRedirectResultAsync
     (AuthService_new (example_constants True False) (Some example_afa) example_backend)
     example_runtime []
   = (Returns (Resolved ()),
      [ImplGetRedirectResultAsync, GetRedirectResult, GetIdToken, BeginSessionAsync ''T''])"
  using handle_redirect_result_begins_session
    [of "AuthService_new (example_constants True False) (Some example_afa) example_backend"
        example_runtime "[]" example_credential
        "[ImplGetRedirectResultAsync, GetRedirectResult]" example_user "''T''"]
  by (simp add: AuthService_new_def ProdAuthServiceImpl_new_def accessor_defs
        Prod_getRedirectResultAsync_def async_def perform_def example_defs)

text \<open>
  C3: when the strategy's redirect result is a credential without a user,
  \<^verbatim>\<open>handleRedirectResultAsync\<close> rejects with \<^verbatim>\<open>null\<close> (the spec's NoCredential: a
  rejection that carries no error object) and \<^verbatim>\<open>beginSessionAsync\<close> is not called.
\<close>

theorem handle_redirect_result_no_user:
  assumes "impl_getRedirectResultAsync (authServiceImpl svc) rt log = (Returns (Resolved creds), log1)"
    and "user creds = None"
  shows "handleRedirectResultAsync svc rt log = (Returns (Rejected JsNull), log1)
         \<and> begin_session_calls (new_calls log (snd (handleRedirectResultAsync svc rt log))) = []"
proof -
  from impl_getRedirectResultAsync_log [of "authServiceImpl svc" rt log] assms(1)
  obtain ext where ext: "log1 = log @ ext" "begin_session_calls ext = []"
    by auto
  have run: "handleRedirectResultAsync svc rt log = (Returns (Rejected JsNull), log1)"
    using assms by (simp add: handleRedirectResultAsync_def async_defs)
  with ext show ?thesis
    by (simp add: new_calls_append)
qed

theorem handle_redirect_result_no_user_witness:
  "handleRedirectResultAsync
     (AuthService_new (example_constants True False)
        (Some (example_afa\<lparr> getRedirectResult := Resolved \<lparr> user = None \<rparr> \<rparr>)) example_backend)
     example_runtime []
   = (Returns (Rejected JsNull), [ImplGetRedirectResultAsync, GetRedirectResult])"
  using handle_redirect_result_no_user
    [of "AuthService_new (example_constants True False)
          (Some (example_afa\<lparr> getRedirectResult := Resolved \<lparr> user = None \<rparr> \<rparr>)) example_backend"
        example_runtime "[]" "\<lparr> user = None \<rparr>"
        "[ImplGetRedirectResultAsync, GetRedirectResult]"]
  by (simp add: AuthService_new_def ProdAuthServiceImpl_new_def accessor_defs
        Prod_getRedirectResultAsync_def async_def perform_def example_defs)

section \<open>AuthService: signing out\<close>

text \<open>
  C4, as the claim states it, fails on \<^verbatim>\<open>signOutAsync\<close>. The claim has both calls run
  to completion and the combined operation fail whenever it does not succeed. Nothing
  in the file bounds either call: with a sign-out that succeeds and an
  \<^verbatim>\<open>endSessionAsync\<close> that stalls, \<^verbatim>\<open>Promise.all\<close> never settles, so the combined
  operation neither succeeds nor fails.
\<close>

theorem sign_out_stalled_counterexample:
  "fst (called (impl_signOutAsync (authServiceImpl
          (AuthService_new (example_constants True False) (Some example_afa)
             (example_backend\<lparr> endSessionAsync := Pending \<rparr>)))) []) = Resolved ()
   \<and> endSessionAsync (authBackendApiService
          (AuthService_new (example_constants True False) (Some example_afa)
             (example_backend\<lparr> endSessionAsync := Pending \<rparr>))) = Pending
   \<and> fst (signOutAsync
          (AuthService_new (example_constants True False) (Some example_afa)
             (example_backend\<lparr> endSessionAsync := Pending \<rparr>))
          example_runtime []) = Returns Pending"
  by (simp add: signOutAsync_def AuthService_new_def ProdAuthServiceImpl_new_def accessor_defs
        Prod_signOutAsync_def async_defs Let_def example_defs)

text \<open>
  C4, amended: every call to \<^verbatim>\<open>signOutAsync\<close> invokes the strategy's sign-out (which
  returns a promise \<open>p\<close>) and \<^verbatim>\<open>endSessionAsync\<close> (with promise \<open>q\<close>) exactly once each.
  The combined operation succeeds if and only if both succeed. If one of them fails it
  fails, with the first encountered failure: the failure of the only one that fails
  (whether or not the other ever completes), and of the one that settles first when
  both fail. If neither fails and one of them never settles, it never settles.
\<close>

theorem sign_out_both_called:
  assumes p: "p = fst (called (impl_signOutAsync (authServiceImpl svc)) log)"
    and q: "q = endSessionAsync (authBackendApiService svc)"
    and r: "r = fst (signOutAsync svc rt log)"
    and made: "made = new_calls log (snd (signOutAsync svc rt log))"
  shows "fst (impl_signOutAsync (authServiceImpl svc) log) = Returns p
         \<and> count_list made ImplSignOutAsync = 1
         \<and> count_list made EndSessionAsync = 1
         \<and> (r = Returns (Resolved ())) = (p = Resolved () \<and> q = Resolved ())
         \<and> (\<forall>e. p = Rejected e \<and> (\<forall>e'. q \<noteq> Rejected e') \<longrightarrow> r = Returns (Rejected e))
         \<and> (\<forall>e. q = Rejected e \<and> (\<forall>e'. p \<noteq> Rejected e') \<longrightarrow> r = Returns (Rejected e))
         \<and> (\<forall>e e'. p = Rejected e \<and> q = Rejected e' \<longrightarrow>
               r = Returns (Rejected (if first_settles_first rt then e else e')))
         \<and> (r = Returns Pending) =
             ((\<forall>e. p \<noteq> Rejected e) \<and> (\<forall>e. q \<noteq> Rejected e) \<and> (p = Pending \<or> q = Pending))"
proof -
  from impl_signOutAsync_log [of "authServiceImpl svc" log]
  obtain p0 ext where impl: "impl_signOutAsync (authServiceImpl svc) log =
        (Returns p0, log @ ImplSignOutAsync # ext)"
    and ext: "count_list ext ImplSignOutAsync = 0" "count_list ext EndSessionAsync = 0"
    by blast
  from impl p have p0: "p0 = p"
    by (simp add: called_def)
  note run = signOutAsync_run [OF impl, of rt]
  have calls: "made = ImplSignOutAsync # ext @ [EndSessionAsync]"
    using made run new_calls_append [of log "ImplSignOutAsync # ext @ [EndSessionAsync]"]
    by simp
  have res: "r = Returns (case Promise_all (first_settles_first rt) p q of
                            Resolved v \<Rightarrow> Resolved ()
                          | Rejected e \<Rightarrow> Rejected e
                          | Pending \<Rightarrow> Pending)"
    using r q run p0 by simp
  have 1: "fst (impl_signOutAsync (authServiceImpl svc) log) = Returns p"
    using impl p0 by simp
  have 2: "count_list made ImplSignOutAsync = 1" "count_list made EndSessionAsync = 1"
    using calls ext by simp_all
  have 3: "(r = Returns (Resolved ())) = (p = Resolved () \<and> q = Resolved ())"
    unfolding res by (cases p; cases q) simp_all
  have 4: "\<forall>e. p = Rejected e \<and> (\<forall>e'. q \<noteq> Rejected e') \<longrightarrow> r = Returns (Rejected e)"
    unfolding res by (cases q) simp_all
  have 5: "\<forall>e. q = Rejected e \<and> (\<forall>e'. p \<noteq> Rejected e') \<longrightarrow> r = Returns (Rejected e)"
    unfolding res by (cases p) simp_all
  have 6: "\<forall>e e'. p = Rejected e \<and> q = Rejected e' \<longrightarrow>
             r = Returns (Rejected (if first_settles_first rt then e else e'))"
    unfolding res by simp
  have 7: "(r = Returns Pending) =
             ((\<forall>e. p \<noteq> Rejected e) \<and> (\<forall>e. q \<noteq> Rejected e) \<and> (p = Pending \<or> q = Pending))"
    unfolding res by (cases p; cases q) simp_all
  from 1 2 3 4 5 6 7 show ?thesis
    by blast
qed

theorem sign_out_both_called_witness:
  "signOutAsync
     (AuthService_new (example_constants True False)
        (Some (example_afa\<lparr> signOut := Rejected network_error \<rparr>))
        (example_backend\<lparr> endSessionAsync := Rejected wrong_password \<rparr>))
     example_runtime []
   = (Returns (Rejected network_error), [ImplSignOutAsync, SignOut, EndSessionAsync])
   \<and> signOutAsync
     (AuthService_new (example_constants True False)
        (Some (example_afa\<lparr> signOut := Rejected network_error \<rparr>))
        (example_backend\<lparr> endSessionAsync := Rejected wrong_password \<rparr>))
     (example_runtime\<lparr> first_settles_first := False \<rparr>) []
   = (Returns (Rejected wrong_password), [ImplSignOutAsync, SignOut, EndSessionAsync])
   \<and> signOutAsync
     (AuthService_new (example_constants True True) None example_backend)
     example_runtime []
   = (Returns (Rejected NullAuthServiceImpl_error), [ImplSignOutAsync, EndSessionAsync])
   \<and> signOutAsync
     (AuthService_new (example_constants True True) (Some example_afa)
        (example_backend\<lparr> endSessionAsync := Rejected network_error \<rparr>))
     example_runtime []
   = (Returns (Rejected network_error), [ImplSignOutAsync, SignOut, EndSessionAsync])
   \<and> signOutAsync
     (AuthService_new (example_constants True True) (Some example_afa) example_backend)
     example_runtime []
   = (Returns (Resolved ()), [ImplSignOutAsync, SignOut, EndSessionAsync])
   \<and> signOutAsync
     (AuthService_new (example_constants True True)
        (Some (example_afa\<lparr> signOut := Pending \<rparr>)) example_backend)
     example_runtime []
   = (Returns Pending, [ImplSignOutAsync, SignOut, EndSessionAsync])"
  using sign_out_both_called [OF refl refl refl refl,
      of "AuthService_new (example_constants True False)
            (Some (example_afa\<lparr> signOut := Rejected network_error \<rparr>))
            (example_backend\<lparr> endSessionAsync := Rejected wrong_password \<rparr>)"
         "[]" example_runtime]
    sign_out_both_called [OF refl refl refl refl,
      of "AuthService_new (example_constants True False)
            (Some (example_afa\<lparr> signOut := Rejected network_error \<rparr>))
            (example_backend\<lparr> endSessionAsync := Rejected wrong_password \<rparr>)"
         "[]" "example_runtime\<lparr> first_settles_first := False \<rparr>"]
    sign_out_both_called [OF refl refl refl refl,
      of "AuthService_new (example_constants True True) None example_backend"
         "[]" example_runtime]
    sign_out_both_called [OF refl refl refl refl,
      of "AuthService_new (example_constants True True) (Some example_afa)
            (example_backend\<lparr> endSessionAsync := Rejected network_error \<rparr>)"
         "[]" example_runtime]
    sign_out_both_called [OF refl refl refl refl,
      of "AuthService_new (example_constants True True) (Some example_afa) example_backend"
         "[]" example_runtime]
    sign_out_both_called [OF refl refl refl refl,
      of "AuthService_new (example_constants True True)
            (Some (example_afa\<lparr> signOut := Pending \<rparr>)) example_backend"
         "[]" example_runtime]
  by (simp add: signOutAsync_def AuthService_new_def ProdAuthServiceImpl_new_def accessor_defs
        Null_signOutAsync_def Dev_signOutAsync_def Prod_signOutAsync_def async_defs Let_def
        example_defs NullAuthServiceImpl_error_def)

end
